theory Spec2Isabelle
  imports Complex_Main "HOL-Library.Sublist"
begin

section \<open>Numbers and naming\<close>

text \<open>
  The game computes with JavaScript numbers. Positions, sizes, velocities, timers and
  scores are modelled as \<^typ>\<open>real\<close>: the finite values, with exact arithmetic
  (rounding is not modelled). The one function whose purpose is the treatment of
  values that are not finite, \<open>Game.recoverPlayerIfNeeded\<close>, is modelled over a type of
  its own further down, which adds NaN and the two infinities.

  \<open>Platform\<close> and \<open>Player\<close> both have fields \<open>x\<close>, \<open>y\<close>, \<open>width\<close>, \<open>height\<close>, so the
  fields of each class carry a prefix: \<open>pl_\<close> for \<open>Platform\<close>, \<open>plr_\<close> for \<open>Player\<close>,
  \<open>pm_\<close> for \<open>PlatformManager\<close>, \<open>cam_\<close> for the camera object, \<open>g_\<close> for \<open>Game\<close>.
  Every \<open>Math.random()\<close> result is an explicit argument (a "draw").
\<close>

section \<open>Platform\<close>

text \<open>The five platform types of the constructor's documentation.\<close>

datatype ptype = Normal | Bouncy | Breakable | Moving | Disappearing

text \<open>The fields the constructor sets (the colour table is rendering data and is left out).\<close>

record platform =
  pl_x :: real
  pl_y :: real
  pl_width :: real
  pl_height :: real
  pl_type :: ptype
  pl_active :: bool
  pl_opacity :: real
  pl_breakProgress :: real
  pl_direction :: real
  pl_velocityX :: real
  pl_maxVelocityX :: real
  pl_disappearTimer :: real
  pl_animationTime :: real

text \<open>
  \<open>new Platform(x, y, width, height, type)\<close>. The last argument is the constructor's
  \<open>Math.random()\<close>, which decides the direction of a moving platform.
\<close>

definition Platform_new :: "real \<Rightarrow> real \<Rightarrow> real \<Rightarrow> real \<Rightarrow> ptype \<Rightarrow> real \<Rightarrow> platform" where
  "Platform_new x y width height type r =
     \<lparr>pl_x = x, pl_y = y, pl_width = width, pl_height = height,
      pl_type = type, pl_active = True,
      pl_opacity = 1, pl_breakProgress = 0,
      pl_direction = (if r > 0.5 then 1 else -1),
      pl_velocityX = 0, pl_maxVelocityX = 2,
      pl_disappearTimer = 0, pl_animationTime = 0\<rparr>"

text \<open>\<open>Platform.update(deltaTime, canvasWidth)\<close>, statement by statement.\<close>

definition Platform_update :: "real \<Rightarrow> real \<Rightarrow> platform \<Rightarrow> platform" where
  "Platform_update deltaTime canvasWidth p0 =
     (let p = p0\<lparr>pl_animationTime := pl_animationTime p0 + deltaTime * 0.01\<rparr> in
      case pl_type p of
        Moving \<Rightarrow>
          (let p1 = p\<lparr>pl_velocityX := pl_direction p * pl_maxVelocityX p\<rparr>;
               p2 = p1\<lparr>pl_x := pl_x p1 + pl_velocityX p1\<rparr>
           in if pl_x p2 \<le> 0 \<or> pl_x p2 + pl_width p2 \<ge> canvasWidth
              then p2\<lparr>pl_direction := pl_direction p2 * (-1)\<rparr>
              else p2)
      | Breakable \<Rightarrow>
          (if pl_breakProgress p > 0 then
             (let p1 = p\<lparr>pl_breakProgress := pl_breakProgress p + deltaTime * 0.05\<rparr>;
                  p2 = p1\<lparr>pl_opacity := 1 - pl_breakProgress p1\<rparr>
              in if pl_breakProgress p2 \<ge> 1 then p2\<lparr>pl_active := False\<rparr> else p2)
           else p)
      | Disappearing \<Rightarrow>
          (if pl_disappearTimer p > 0 then
             (let p1 = p\<lparr>pl_disappearTimer := pl_disappearTimer p + deltaTime\<rparr>;
                  p2 = p1\<lparr>pl_opacity := 1 - (pl_disappearTimer p1 / 60)\<rparr>
              in if pl_disappearTimer p2 \<ge> 60 then p2\<lparr>pl_active := False\<rparr> else p2)
           else p)
      | _ \<Rightarrow> p)"

text \<open>\<open>Platform.break()\<close> and \<open>Platform.startDisappearing()\<close>.\<close>

definition Platform_break :: "platform \<Rightarrow> platform" where
  "Platform_break p = (if pl_type p = Breakable then p\<lparr>pl_breakProgress := 0.01\<rparr> else p)"


section \<open>PlatformManager\<close>

text \<open>
  Modelled from the spec: \<open>Utils.randomBetween(min, max)\<close> is called by the generator but
  the \<open>Utils\<close> object is not among the sources. The spec (4.1) has the gap, the width and
  the horizontal position picked uniformly from \<open>[min, max]\<close>; \<open>r\<close> is the underlying
  \<open>Math.random()\<close> result, a number in \<open>[0, 1)\<close>.
\<close>

definition randomBetween :: "real \<Rightarrow> real \<Rightarrow> real \<Rightarrow> real" where
  "randomBetween lo hi r = lo + r * (hi - lo)"

record platformManager =
  pm_canvasWidth :: real
  pm_canvasHeight :: real
  pm_platforms :: "platform list"
  pm_minPlatformWidth :: real
  pm_maxPlatformWidth :: real
  pm_platformHeight :: real
  pm_minGapY :: real
  pm_maxGapY :: real
  pm_specialPlatformChance :: real
  pm_highestPlatformY :: real
  pm_platformDensity :: real
  pm_density :: real
  pm_minWidth :: real
  pm_maxWidth :: real

text \<open>
  The random numbers one call of \<open>generatePlatform\<close> may consume, in source order: the
  three \<open>randomBetween\<close> calls, \<open>Math.random() < specialChance\<close>, \<open>const rand\<close>,
  the coin of the breakable fallback, the coin of the 300-310 patch, and the one inside
  the \<open>Platform\<close> constructor.
\<close>

record gdraw =
  gapR :: real
  widthR :: real
  xR :: real
  specialR :: real
  randR :: real
  altR :: real
  patchR :: real
  dirR :: real

text \<open>The local constant \<open>specialChance\<close> of \<open>generatePlatform\<close>, as a function of \<open>score\<close>.\<close>

definition specialChance :: "real \<Rightarrow> real" where
  "specialChance score = min 0.6 (0.2 + (score / 1000))"

text \<open>The score-banded distribution of \<open>generatePlatform\<close> (the three \<open>if (score < ...)\<close> bands).\<close>

definition bandType :: "real \<Rightarrow> real \<Rightarrow> ptype" where
  "bandType score rand =
     (if score < 300 then
        (if rand < 0.6 then Bouncy else if rand < 0.9 then Moving else Normal)
      else if score < 1000 then
        (if rand < 0.4 then Bouncy else if rand < 0.7 then Moving
         else if rand < 0.9 then Breakable else Disappearing)
      else
        (if rand < 0.25 then Bouncy else if rand < 0.5 then Moving
         else if rand < 0.75 then Breakable else Disappearing))"

text \<open>\<open>this.platforms.slice(-3).map(p => p.type)\<close>.\<close>

definition lastFewTypes :: "platform list \<Rightarrow> ptype list" where
  "lastFewTypes ps = map pl_type (drop (length ps - 3) ps)"

text \<open>The anti-repetition rule of \<open>generatePlatform\<close>, applied to the drawn type.\<close>

definition avoidRepeats :: "ptype list \<Rightarrow> real \<Rightarrow> ptype \<Rightarrow> ptype" where
  "avoidRepeats lastFew alt type =
     (if type = Disappearing \<and> Disappearing \<in> set lastFew then Normal
      else if type = Breakable \<and> Breakable \<in> set lastFew \<and> Disappearing \<in> set lastFew
        then (if alt < 0.5 then Bouncy else Normal)
      else type)"

text \<open>The patch for scores 300 to 310, applied last.\<close>

definition landingPatch :: "real \<Rightarrow> real \<Rightarrow> ptype \<Rightarrow> ptype" where
  "landingPatch score patch type =
     (if score \<ge> 300 \<and> score \<le> 310 then (if patch < 0.7 then Normal else Bouncy)
      else type)"

text \<open>
  \<open>PlatformManager.generatePlatform()\<close>: returns the new platform and the manager it
  leaves behind (frontier moved, platform appended).
\<close>

definition generatePlatform :: "gdraw \<Rightarrow> platformManager \<Rightarrow> platform \<times> platformManager" where
  "generatePlatform d pm0 =
     (let gap = randomBetween (pm_minGapY pm0) (pm_maxGapY pm0) (gapR d);
          newY = pm_highestPlatformY pm0 - gap;
          pm = pm0\<lparr>pm_highestPlatformY := newY\<rparr>;
          width = randomBetween (pm_minWidth pm) (pm_maxWidth pm) (widthR d);
          x = randomBetween 0 (pm_canvasWidth pm - width) (xR d);
          score = \<bar>newY\<bar> / 10;
          type = (if specialR d < specialChance score
                  then landingPatch score (patchR d)
                         (avoidRepeats (lastFewTypes (pm_platforms pm)) (altR d)
                            (bandType score (randR d)))
                  else Normal);
          platform = Platform_new x newY width (pm_platformHeight pm) type (dirR d)
      in (platform, pm\<lparr>pm_platforms := pm_platforms pm @ [platform]\<rparr>))"

text \<open>
  The random numbers of the constructor: for the start platform, for the five bottom
  platforms (loop index \<open>i\<close>), and for the calls of \<open>generatePlatform\<close> (loop index \<open>i\<close>).
\<close>

record cdraw =
  startDirR :: real
  bottomXR :: "nat \<Rightarrow> real"
  bottomDirR :: "nat \<Rightarrow> real"
  genD :: "nat \<Rightarrow> gdraw"

text \<open>The body of the loop \<open>for (let i = 0; i < 5; i++)\<close> of \<open>generateInitialPlatforms\<close>.\<close>

definition addBottomPlatform :: "cdraw \<Rightarrow> nat \<Rightarrow> platformManager \<Rightarrow> platformManager" where
  "addBottomPlatform cd i pm =
     (let x = randomBetween 0 (pm_canvasWidth pm - 100) (bottomXR cd i);
          y = pm_canvasHeight pm - 200 - (real i * 70);
          platform = Platform_new x y 100 (pm_platformHeight pm) Normal (bottomDirR cd i)
      in pm\<lparr>pm_platforms := pm_platforms pm @ [platform],
            pm_highestPlatformY := min (pm_highestPlatformY pm) y\<rparr>)"

text \<open>
  \<open>generateInitialPlatforms(count)\<close>. The last loop is
  \<open>for (let i = 6; i < count + 5; i++) this.generatePlatform()\<close>.
\<close>

definition generateInitialPlatforms :: "nat \<Rightarrow> cdraw \<Rightarrow> platformManager \<Rightarrow> platformManager" where
  "generateInitialPlatforms count cd pm =
     (let startPlatform = Platform_new (pm_canvasWidth pm / 2 - 75) (pm_canvasHeight pm - 100)
                            150 (pm_platformHeight pm) Normal (startDirR cd);
          pm1 = pm\<lparr>pm_platforms := pm_platforms pm @ [startPlatform],
                   pm_highestPlatformY := pl_y startPlatform\<rparr>;
          pm2 = fold (addBottomPlatform cd) [0..<5] pm1
      in fold (\<lambda>i m. snd (generatePlatform (genD cd i) m)) [6..<count + 5] pm2)"

text \<open>\<open>new PlatformManager(canvasWidth, canvasHeight, initialPlatformCount)\<close>.\<close>

definition PlatformManager_new :: "real \<Rightarrow> real \<Rightarrow> nat \<Rightarrow> cdraw \<Rightarrow> platformManager" where
  "PlatformManager_new canvasWidth canvasHeight initialPlatformCount cd =
     generateInitialPlatforms initialPlatformCount cd
       \<lparr>pm_canvasWidth = canvasWidth, pm_canvasHeight = canvasHeight,
        pm_platforms = [],
        pm_minPlatformWidth = 80, pm_maxPlatformWidth = 150,
        pm_platformHeight = 20,
        pm_minGapY = 70, pm_maxGapY = 110,
        pm_specialPlatformChance = 0.3,
        pm_highestPlatformY = canvasHeight,
        pm_platformDensity = 1.0,
        pm_density = 10, pm_minWidth = 60, pm_maxWidth = 120\<rparr>"

text \<open>
  First loop of \<open>PlatformManager.update\<close>: every platform is updated, and the inactive
  ones and those more than 300 below the bottom of the screen are spliced out. (The
  source walks the array from the back so that splicing does not disturb the indices
  still to come; the platforms that stay keep their order.)
\<close>

definition prunePlatforms :: "real \<Rightarrow> real \<Rightarrow> platformManager \<Rightarrow> platformManager" where
  "prunePlatforms deltaTime cameraY pm =
     pm\<lparr>pm_platforms :=
          filter (\<lambda>platform. \<not> (\<not> pl_active platform
                                \<or> pl_y platform > cameraY + pm_canvasHeight pm + 300))
            (map (Platform_update deltaTime (pm_canvasWidth pm)) (pm_platforms pm))\<rparr>"

text \<open>
  The loop \<open>while (this.highestPlatformY > cameraY - this.canvasHeight * 2)
  this.generatePlatform()\<close>. The \<open>i\<close>-th iteration uses the draws \<open>rnd i\<close>. A loop that
  does not end has the value \<open>None\<close>.
\<close>

partial_function (option) generateLoop ::
  "(nat \<Rightarrow> gdraw) \<Rightarrow> real \<Rightarrow> nat \<Rightarrow> platformManager \<Rightarrow> platformManager option" where
  "generateLoop rnd cameraY i pm =
     (if pm_highestPlatformY pm > cameraY - pm_canvasHeight pm * 2
      then generateLoop rnd cameraY (Suc i) (snd (generatePlatform (rnd i) pm))
      else Some pm)"

declare generateLoop.simps [code]

text \<open>The random numbers of one filler platform: its \<open>y\<close>, width, \<open>x\<close> and direction.\<close>

record fdraw =
  fyR :: real
  fwidthR :: real
  fxR :: real
  fdirR :: real

text \<open>The body of the filler loop of \<open>PlatformManager.update\<close>.\<close>

definition addFillPlatform :: "real \<Rightarrow> fdraw \<Rightarrow> platformManager \<Rightarrow> platformManager" where
  "addFillPlatform cameraY fd pm =
     (let y = cameraY + randomBetween 100 (pm_canvasHeight pm - 100) (fyR fd);
          width = randomBetween (pm_minWidth pm) (pm_maxWidth pm) (fwidthR fd);
          x = randomBetween 0 (pm_canvasWidth pm - width) (fxR fd);
          fillPlatform = Platform_new x y width (pm_platformHeight pm) Normal (fdirR fd)
      in pm\<lparr>pm_platforms := pm_platforms pm @ [fillPlatform]\<rparr>)"

text \<open>The density check at the end of \<open>PlatformManager.update\<close>.\<close>

definition topUpDensity :: "real \<Rightarrow> (nat \<Rightarrow> fdraw) \<Rightarrow> platformManager \<Rightarrow> platformManager" where
  "topUpDensity cameraY fill pm =
     (let visiblePlatforms =
            filter (\<lambda>p. pl_y p \<ge> cameraY - 100 \<and> pl_y p \<le> cameraY + pm_canvasHeight pm + 100)
              (pm_platforms pm)
      in if real (length visiblePlatforms) < pm_density pm * pm_platformDensity pm
         then fold (\<lambda>i. addFillPlatform cameraY (fill i)) [0..<2] pm
         else pm)"

record udraw =
  ugen :: "nat \<Rightarrow> gdraw"
  ufill :: "nat \<Rightarrow> fdraw"

text \<open>\<open>PlatformManager.update(deltaTime, cameraY)\<close>; \<open>None\<close> when the generation loop does not end.\<close>

definition PlatformManager_update ::
  "real \<Rightarrow> real \<Rightarrow> udraw \<Rightarrow> platformManager \<Rightarrow> platformManager option" where
  "PlatformManager_update deltaTime cameraY ud pm =
     (case generateLoop (ugen ud) cameraY 0 (prunePlatforms deltaTime cameraY pm) of
        None \<Rightarrow> None
      | Some pm' \<Rightarrow> Some (topUpDensity cameraY (ufill ud) pm'))"

text \<open>
  The steps that change a manager after its construction, for speaking about runs: a
  call of \<open>generatePlatform\<close>, the pruning loop of \<open>update\<close>, and the injection of one
  filler platform by \<open>update\<close>. \<open>runSteps\<close> performs a list of steps and returns, next to
  the final manager, the platforms that the calls of \<open>generatePlatform\<close> returned, in
  generation order (the fillers are not among them).
\<close>

datatype step = Gen gdraw | Prune real real | Fill real fdraw

fun runSteps :: "step list \<Rightarrow> platformManager \<Rightarrow> platform list \<times> platformManager" where
  "runSteps [] pm = ([], pm)"
| "runSteps (Gen d # ss) pm =
     (let (p, pm') = generatePlatform d pm; (log, pm'') = runSteps ss pm' in (p # log, pm''))"
| "runSteps (Prune dt cameraY # ss) pm = runSteps ss (prunePlatforms dt cameraY pm)"
| "runSteps (Fill cameraY fd # ss) pm = runSteps ss (addFillPlatform cameraY fd pm)"

text \<open>Every difference \<open>a - b\<close> of neighbours \<open>a, b\<close> in the list lies in \<open>[lo, hi]\<close>.\<close>

fun gapsWithin :: "real \<Rightarrow> real \<Rightarrow> real list \<Rightarrow> bool" where
  "gapsWithin lo hi (a # b # ys) = (lo \<le> a - b \<and> a - b \<le> hi \<and> gapsWithin lo hi (b # ys))"
| "gapsWithin lo hi ys = True"



section \<open>Player and collisions with platforms\<close>

text \<open>
  The fields of the player that the sources read or write. The number type is a
  parameter: \<^typ>\<open>real\<close> everywhere except in \<open>recoverPlayerIfNeeded\<close>.
\<close>

record 'n player =
  plr_x :: 'n
  plr_y :: 'n
  plr_width :: 'n
  plr_height :: 'n
  plr_velocityX :: 'n
  plr_velocityY :: 'n
  plr_gravity :: 'n
  plr_jumpForce :: 'n
  plr_isAlive :: bool
  plr_isFalling :: bool

text \<open>
  Modelled from the spec: class \<open>Player\<close> is not among the sources. The spec (3) gives the
  player a position and dimensions, which \<open>new Player(x, y, width, height)\<close> receives.
  What the constructor gives the other fields is not known; \<open>proto\<close> stands for it.
\<close>

definition Player_new :: "real \<Rightarrow> real \<Rightarrow> real \<Rightarrow> real \<Rightarrow> real player \<Rightarrow> real player" where
  "Player_new x y width height proto =
     proto\<lparr>plr_x := x, plr_y := y, plr_width := width, plr_height := height\<rparr>"






section \<open>Game\<close>

record camera =
  cam_y :: real
  cam_targetY :: real
  cam_smoothing :: real

text \<open>
  The classes \<open>Enemy\<close>, \<open>EnemyManager\<close> and \<open>PowerUpManager\<close> are not among the sources.
  These are the fields of them that \<open>Game\<close> reads or writes: the \<open>y\<close> of an enemy, the
  spawn chance, the speed limit and the enemy list of the enemy manager, and the canvas
  size that \<open>adjustEntitiesForResize\<close> stores in the power-up manager.
\<close>

record enemy =
  en_y :: real

record enemyManager =
  em_spawnChance :: real
  em_maxSpeed :: real
  em_enemies :: "enemy list"

record powerUpManager =
  pu_canvasWidth :: real
  pu_canvasHeight :: real

text \<open>
  The state of a \<open>Game\<close>: the canvas size, the flags, score and difficulty, the camera
  and the entities. The DOM elements, the sounds and the clouds are presentation and
  are left out.
\<close>

record game =
  g_canvasWidth :: real
  g_canvasHeight :: real
  g_isRunning :: bool
  g_isGameOver :: bool
  g_score :: real
  g_highScore :: real
  g_difficulty :: real
  g_lastDifficultyIncrease :: real
  g_lastTime :: real
  g_camera :: camera
  g_player :: "real player"
  g_platformManager :: platformManager
  g_enemyManager :: enemyManager
  g_powerUpManager :: powerUpManager
  g_milestoneTimers :: "real \<rightharpoonup> real"

text \<open>
  What \<open>initEntities\<close> needs from outside: the random numbers of the platform manager's
  constructor and of the starting platform, and the freshly constructed player fields,
  enemy manager and power-up manager of the missing classes.
\<close>

record edraw =
  e_manager :: cdraw
  e_startR :: real
  e_proto :: "real player"
  e_enemies :: enemyManager
  e_powerUps :: powerUpManager

text \<open>\<open>Game.initEntities()\<close>. \<open>platformHeight || 20\<close> is 20 when the height is 0.\<close>

definition initEntities :: "edraw \<Rightarrow> game \<Rightarrow> game" where
  "initEntities ed g =
     (let player = Player_new (g_canvasWidth g / 2 - 30) (g_canvasHeight g - 150) 60 100
                     (e_proto ed);
          platformManager = PlatformManager_new (g_canvasWidth g) (g_canvasHeight g) 15
                              (e_manager ed);
          startingPlatform =
            Platform_new (g_canvasWidth g / 2 - 40) (g_canvasHeight g - 40) 80
              (if pm_platformHeight platformManager = 0 then 20
               else pm_platformHeight platformManager)
              Normal (e_startR ed)
      in g\<lparr>g_player := player,
           g_platformManager :=
             platformManager\<lparr>pm_platforms := pm_platforms platformManager @ [startingPlatform]\<rparr>,
           g_enemyManager := e_enemies ed,
           g_powerUpManager := e_powerUps ed\<rparr>)"

text \<open>
  The state that the constructor of \<open>Game\<close> sets up, for a canvas of the given size and
  the high score found in the local storage. The entity fields have no value before
  \<open>initEntities\<close> runs; the record needs one, and \<open>initEntities\<close> overwrites it.
\<close>

definition Game_new :: "real \<Rightarrow> real \<Rightarrow> real \<Rightarrow> edraw \<Rightarrow> game" where
  "Game_new canvasWidth canvasHeight storedHighScore ed =
     initEntities ed
       \<lparr>g_canvasWidth = canvasWidth, g_canvasHeight = canvasHeight,
        g_isRunning = False, g_isGameOver = False,
        g_score = 0, g_highScore = storedHighScore,
        g_difficulty = 1, g_lastDifficultyIncrease = 0,
        g_lastTime = 0,
        g_camera = \<lparr>cam_y = 0, cam_targetY = 0, cam_smoothing = 0.1\<rparr>,
        g_player = e_proto ed,
        g_platformManager = PlatformManager_new canvasWidth canvasHeight 15 (e_manager ed),
        g_enemyManager = e_enemies ed,
        g_powerUpManager = e_powerUps ed,
        g_milestoneTimers = Map.empty\<rparr>"

text \<open>\<open>Game.increaseDifficulty()\<close>.\<close>

definition increaseDifficulty :: "game \<Rightarrow> game" where
  "increaseDifficulty g0 =
     (let g1 = g0\<lparr>g_difficulty := g_difficulty g0 + 1\<rparr>;
          g2 = g1\<lparr>g_lastDifficultyIncrease := g_score g1\<rparr>;
          d = g_difficulty g2;
          newGravity = 0.5 + (d - 1) * 0.05;
          newJumpForce = -15 - (d - 1);
          player = (g_player g2)\<lparr>plr_gravity := min newGravity 0.8,
                                 plr_jumpForce := max newJumpForce (-20)\<rparr>;
          platformReduction = min (d - 1) 5;
          widthReduction = min ((d - 1) * 10) 40;
          heightReduction = min ((d - 1) * 2) 10;
          platformManager = (g_platformManager g2)
            \<lparr>pm_density := max (10 - platformReduction) 5,
             pm_minWidth := max (60 - widthReduction) 20,
             pm_maxWidth := max (120 - widthReduction) 60,
             pm_platformHeight := max (20 - heightReduction) 10\<rparr>;
          enemyManager = (g_enemyManager g2)
            \<lparr>em_spawnChance := min (0.2 + (d - 1) * 0.05) 0.5,
             em_maxSpeed := min (2 + (d - 1) * 0.5) 5\<rparr>;
          camera = (g_camera g2)\<lparr>cam_smoothing := min (0.1 + (d - 1) * 0.02) 0.2\<rparr>
      in g2\<lparr>g_player := player, g_platformManager := platformManager,
            g_enemyManager := enemyManager, g_camera := camera\<rparr>)"

text \<open>\<open>Game.showThousandMilestone(milestone)\<close> (the sound is left out).\<close>

definition showThousandMilestone :: "real \<Rightarrow> game \<Rightarrow> game" where
  "showThousandMilestone milestone g =
     g\<lparr>g_milestoneTimers := (g_milestoneTimers g)(milestone \<mapsto> 120)\<rparr>"

text \<open>
  \<open>Game.updateScore(newScore)\<close>. The 100-point branch only plays a sound and animates
  the score element, as does the end of the function; what is left is the 1000-point
  branch and the assignment of the score.
\<close>

definition updateScore :: "real \<Rightarrow> game \<Rightarrow> game" where
  "updateScore newScore g =
     (if newScore > g_score g then
        (let previousThousand = \<lfloor>g_score g / 1000\<rfloor>;
             newThousand = \<lfloor>newScore / 1000\<rfloor>;
             g1 = (if newThousand > previousThousand
                   then showThousandMilestone (of_int newThousand * 1000) (increaseDifficulty g)
                   else g)
         in g1\<lparr>g_score := newScore\<rparr>)
      else g)"

text \<open>
  The local constant \<open>easing\<close> of \<open>Game.updateCamera\<close>, as a function of the player's
  vertical velocity: \<open>this.player.velocityY > 0 ? 0.05 : 0.1\<close>.
\<close>

definition cameraEasing :: "real \<Rightarrow> real" where
  "cameraEasing velocityY = (if velocityY > 0 then 0.05 else 0.1)"

text \<open>
  \<open>Game.updateCamera(deltaTime)\<close>. \<open>Utils.ease(current, target, easing)\<close> is a function of
  the missing \<open>Utils\<close> object: it is the parameter \<open>ease\<close>.
\<close>

definition updateCamera :: "(real \<Rightarrow> real \<Rightarrow> real \<Rightarrow> real) \<Rightarrow> real \<Rightarrow> game \<Rightarrow> game" where
  "updateCamera ease deltaTime g =
     (let screenY = plr_y (g_player g) - cam_y (g_camera g);
          c1 = (if screenY < g_canvasHeight g * 0.67
                then (g_camera g)\<lparr>cam_targetY := plr_y (g_player g) - (g_canvasHeight g * 0.5)\<rparr>
                else g_camera g);
          c2 = (if screenY > g_canvasHeight g * 0.8 \<and> cam_targetY c1 > cam_y c1
                then c1\<lparr>cam_targetY := cam_y c1\<rparr>
                else c1);
          easing = cameraEasing (plr_velocityY (g_player g));
          c3 = c2\<lparr>cam_y := ease (cam_y c2) (cam_targetY c2) easing\<rparr>;
          player = (if screenY > g_canvasHeight g + 50
                    then (g_player g)\<lparr>plr_isAlive := False\<rparr>
                    else g_player g)
      in g\<lparr>g_camera := c3, g_player := player\<rparr>)"







text \<open>
  \<open>Game.recoverPlayerIfNeeded()\<close> on finite numbers, where its third test (\<open>isNaN\<close>)
  is false. The function on all JavaScript numbers is further down.
\<close>

definition recoverFinite :: "game \<Rightarrow> game" where
  "recoverFinite g =
     (let p0 = g_player g;
          p1 = (if plr_x p0 < - plr_width p0 * 2
                   \<or> plr_x p0 > g_canvasWidth g + plr_width p0 * 2
                then p0\<lparr>plr_x := g_canvasWidth g / 2 - plr_width p0 / 2\<rparr>
                else p0);
          screenY = plr_y p1 - cam_y (g_camera g)
      in if screenY < - g_canvasHeight g \<or> screenY > g_canvasHeight g * 2
         then g\<lparr>g_player := p1\<lparr>plr_isAlive := False\<rparr>\<rparr>
         else g\<lparr>g_player := p1\<rparr>)"








section \<open>JavaScript numbers that are not finite\<close>

text \<open>
  A number is a finite value, one of the two infinities, or NaN. The operations follow
  IEEE 754 on the special values; rounding and the sign of zero are not modelled.
\<close>

datatype jsnum = Fin real | PInf | NInf | NaN

fun jneg :: "jsnum \<Rightarrow> jsnum" where
  "jneg (Fin a) = Fin (- a)"
| "jneg PInf = NInf"
| "jneg NInf = PInf"
| "jneg NaN = NaN"

fun jadd :: "jsnum \<Rightarrow> jsnum \<Rightarrow> jsnum" where
  "jadd NaN b = NaN"
| "jadd a NaN = NaN"
| "jadd (Fin a) (Fin b) = Fin (a + b)"
| "jadd PInf NInf = NaN"
| "jadd NInf PInf = NaN"
| "jadd PInf b = PInf"
| "jadd NInf b = NInf"
| "jadd (Fin a) b = b"

definition jsub :: "jsnum \<Rightarrow> jsnum \<Rightarrow> jsnum" where
  "jsub a b = jadd a (jneg b)"

text \<open>The sign of a number that is not NaN, and an infinity of a given sign.\<close>

fun jsgn :: "jsnum \<Rightarrow> real" where
  "jsgn (Fin a) = sgn a"
| "jsgn PInf = 1"
| "jsgn NInf = -1"
| "jsgn NaN = 0"

definition jinf :: "real \<Rightarrow> jsnum" where
  "jinf s = (if s = 0 then NaN else if s > 0 then PInf else NInf)"

fun jmul :: "jsnum \<Rightarrow> jsnum \<Rightarrow> jsnum" where
  "jmul NaN b = NaN"
| "jmul a NaN = NaN"
| "jmul (Fin a) (Fin b) = Fin (a * b)"
| "jmul a b = jinf (jsgn a * jsgn b)"

fun jdiv :: "jsnum \<Rightarrow> jsnum \<Rightarrow> jsnum" where
  "jdiv NaN b = NaN"
| "jdiv a NaN = NaN"
| "jdiv (Fin a) (Fin b) = (if b = 0 then jinf (sgn a) else Fin (a / b))"
| "jdiv (Fin a) b = Fin 0"
| "jdiv a (Fin b) = jinf (jsgn a * (if b < 0 then -1 else 1))"
| "jdiv a b = NaN"

fun jlt :: "jsnum \<Rightarrow> jsnum \<Rightarrow> bool" where
  "jlt NaN b = False"
| "jlt a NaN = False"
| "jlt (Fin a) (Fin b) = (a < b)"
| "jlt PInf b = False"
| "jlt a NInf = False"
| "jlt a b = True"

definition jgt :: "jsnum \<Rightarrow> jsnum \<Rightarrow> bool" where
  "jgt a b = jlt b a"

definition isNaN :: "jsnum \<Rightarrow> bool" where
  "isNaN a = (a = NaN)"

text \<open>
  \<open>Game.recoverPlayerIfNeeded()\<close>, as a function of the canvas size, \<open>camera.y\<close> and the
  player.
\<close>

definition recoverPlayerIfNeeded ::
  "jsnum \<Rightarrow> jsnum \<Rightarrow> jsnum \<Rightarrow> jsnum player \<Rightarrow> jsnum player" where
  "recoverPlayerIfNeeded canvasWidth canvasHeight cameraY p0 =
     (let p1 = (if jlt (plr_x p0) (jmul (jneg (plr_width p0)) (Fin 2))
                   \<or> jgt (plr_x p0) (jadd canvasWidth (jmul (plr_width p0) (Fin 2)))
                then p0\<lparr>plr_x := jsub (jdiv canvasWidth (Fin 2)) (jdiv (plr_width p0) (Fin 2))\<rparr>
                else p0);
          screenY = jsub (plr_y p1) cameraY
      in if jlt screenY (jneg canvasHeight) \<or> jgt screenY (jmul canvasHeight (Fin 2))
         then p1\<lparr>plr_isAlive := False\<rparr>
         else if isNaN (plr_x p1) \<or> isNaN (plr_y p1)
                 \<or> isNaN (plr_velocityX p1) \<or> isNaN (plr_velocityY p1)
         then p1\<lparr>plr_x := jsub (jdiv canvasWidth (Fin 2)) (jdiv (plr_width p1) (Fin 2)),
                 plr_y := jadd cameraY (jmul canvasHeight (Fin 0.7)),
                 plr_velocityX := Fin 0,
                 plr_velocityY := jmul (plr_jumpForce p1) (Fin 0.5)\<rparr>
         else p1)"

text \<open>A player with finite fields, as a player over all JavaScript numbers.\<close>

definition playerJs :: "real player \<Rightarrow> jsnum player" where
  "playerJs p = \<lparr>plr_x = Fin (plr_x p), plr_y = Fin (plr_y p), plr_width = Fin (plr_width p),
                 plr_height = Fin (plr_height p), plr_velocityX = Fin (plr_velocityX p),
                 plr_velocityY = Fin (plr_velocityY p), plr_gravity = Fin (plr_gravity p),
                 plr_jumpForce = Fin (plr_jumpForce p), plr_isAlive = plr_isAlive p,
                 plr_isFalling = plr_isFalling p\<rparr>"

section \<open>A concrete game\<close>

text \<open>
  Inputs for the examples: a canvas of 400 by 600, and random numbers that make every
  gap 106, every generated platform 90 wide at \<open>x = 155\<close>, and every generated platform
  \<open>normal\<close> (\<open>plainDraw\<close>: the special-platform draw 0.9 is above every special chance)
  or, where the rules allow it, \<open>disappearing\<close> (\<open>vanishDraw\<close>).
\<close>

definition plainDraw :: gdraw where
  "plainDraw = \<lparr>gapR = 0.9, widthR = 0.5, xR = 0.5, specialR = 0.9, randR = 0.95,
                 altR = 0.5, patchR = 0.5, dirR = 0.3\<rparr>"

definition vanishDraw :: gdraw where
  "vanishDraw = plainDraw\<lparr>specialR := 0.1\<rparr>"

definition plainFill :: fdraw where
  "plainFill = \<lparr>fyR = 0.5, fwidthR = 0.5, fxR = 0.5, fdirR = 0.3\<rparr>"

definition plainCtor :: cdraw where
  "plainCtor = \<lparr>startDirR = 0.3, bottomXR = (\<lambda>i. 0.5), bottomDirR = (\<lambda>i. 0.3),
                 genD = (\<lambda>i. plainDraw)\<rparr>"

text \<open>
  The draws of a constructor whose generated platforms may be \<open>disappearing\<close> and for
  which the patch for scores 300 to 310 chooses \<open>bouncy\<close>.
\<close>

definition tallCtor :: cdraw where
  "tallCtor = plainCtor\<lparr>genD := (\<lambda>i. vanishDraw\<lparr>patchR := 0.8\<rparr>)\<rparr>"

text \<open>
  The draws of an \<open>update\<close> whose twentieth generated platform may be \<open>disappearing\<close>,
  and of an \<open>update\<close> in which every generated platform may be.
\<close>

definition firstUpdate :: udraw where
  "firstUpdate = \<lparr>ugen = (\<lambda>j. if j = 19 then vanishDraw else plainDraw),
                   ufill = (\<lambda>i. plainFill)\<rparr>"

definition laterUpdate :: udraw where
  "laterUpdate = \<lparr>ugen = (\<lambda>j. vanishDraw), ufill = (\<lambda>i. plainFill)\<rparr>"

text \<open>
  The manager of a 400 by 600 canvas at difficulty 1, with a given frontier and list of
  platforms, and a platform of height 20 that nobody has stepped on, with a given
  animation time.
\<close>

definition stdManager :: "real \<Rightarrow> platform list \<Rightarrow> platformManager" where
  "stdManager H ps =
     \<lparr>pm_canvasWidth = 400, pm_canvasHeight = 600, pm_platforms = ps,
      pm_minPlatformWidth = 80, pm_maxPlatformWidth = 150, pm_platformHeight = 20,
      pm_minGapY = 70, pm_maxGapY = 110, pm_specialPlatformChance = 0.3,
      pm_highestPlatformY = H, pm_platformDensity = 1.0,
      pm_density = 10, pm_minWidth = 60, pm_maxWidth = 120\<rparr>"

definition plat :: "real \<Rightarrow> real \<Rightarrow> ptype \<Rightarrow> real \<Rightarrow> real \<Rightarrow> platform" where
  "plat x w t y a = (Platform_new x y w 20 t 0.3)\<lparr>pl_animationTime := a\<rparr>"

text \<open>
  The platforms after the first \<open>update\<close> of the example: nineteen normal platforms,
  a disappearing one on the frontier, and two fillers.
\<close>

definition afterClimb :: "real \<Rightarrow> platform list" where
  "afterClimb a = map (\<lambda>k. plat 155 90 Normal (- 1364 - 106 * real k) a) [1..<20]
                   @ [plat 155 90 Disappearing (- 3484) a,
                      plat 155 90 Normal (- 1980) a, plat 155 90 Normal (- 1980) a]"

text \<open>The steps of the three \<open>update\<close> calls of the example, in order.\<close>

definition climbSteps :: "step list" where
  "climbSteps =
     Prune 16 (- 2280) # map (\<lambda>j. Gen (ugen firstUpdate j)) [0..<20]
     @ [Fill (- 2280) plainFill, Fill (- 2280) plainFill,
        Prune 16 (- 2282), Fill (- 2282) plainFill, Fill (- 2282) plainFill,
        Prune 16 (- 2286), Gen vanishDraw]"

text \<open>A player at rest, an enemy manager, and the inputs of \<open>initEntities\<close>.\<close>

definition restingPlayer :: "real player" where
  "restingPlayer = \<lparr>plr_x = 0, plr_y = 0, plr_width = 0, plr_height = 0,
                     plr_velocityX = 0, plr_velocityY = 0, plr_gravity = 0.5,
                     plr_jumpForce = -15, plr_isAlive = True, plr_isFalling = False\<rparr>"

definition plainEntities :: edraw where
  "plainEntities = \<lparr>e_manager = plainCtor, e_startR = 0.3, e_proto = restingPlayer,
                     e_enemies = \<lparr>em_spawnChance = 0.2, em_maxSpeed = 2, em_enemies = []\<rparr>,
                     e_powerUps = \<lparr>pu_canvasWidth = 400, pu_canvasHeight = 600\<rparr>\<rparr>"






definition vanishing :: "real \<Rightarrow> real \<Rightarrow> platform" where
  "vanishing t a = (plat 155 90 Disappearing (- 3484) a)
                     \<lparr>pl_disappearTimer := t, pl_opacity := (if t > 1 then 1 - t / 60 else 1)\<rparr>"




section \<open>Theorems\<close>

subsection \<open>Platform.update\<close>

text \<open>
  C10. Frame condition of \<open>Platform.update(deltaTime, canvasWidth)\<close>: for every platform
  and every argument, the call leaves \<open>y\<close>, \<open>width\<close>, \<open>height\<close> and \<open>type\<close> as they
  were; it leaves \<open>x\<close> as it was unless the type is \<open>moving\<close>; and for the types
  \<open>normal\<close>, \<open>bouncy\<close> and \<open>moving\<close> it leaves \<open>active\<close> and \<open>opacity\<close> as they were.
\<close>

theorem Platform_update_frame:
  "pl_y (Platform_update dt cw p) = pl_y p
   \<and> pl_width (Platform_update dt cw p) = pl_width p
   \<and> pl_height (Platform_update dt cw p) = pl_height p
   \<and> pl_type (Platform_update dt cw p) = pl_type p
   \<and> (pl_type p \<noteq> Moving \<longrightarrow> pl_x (Platform_update dt cw p) = pl_x p)
   \<and> (pl_type p \<in> {Normal, Bouncy, Moving} \<longrightarrow>
        pl_active (Platform_update dt cw p) = pl_active p
        \<and> pl_opacity (Platform_update dt cw p) = pl_opacity p)"
  by (cases "pl_type p") (simp_all add: Platform_update_def Let_def)

theorem Platform_update_frame_witness:
  "pl_x (Platform_update 16 400 (Platform_new 10 20 100 20 Bouncy 0.7)) = 10
   \<and> pl_y (Platform_update 16 400 (Platform_new 10 20 100 20 Bouncy 0.7)) = 20
   \<and> pl_width (Platform_update 16 400 (Platform_new 10 20 100 20 Bouncy 0.7)) = 100
   \<and> pl_height (Platform_update 16 400 (Platform_new 10 20 100 20 Bouncy 0.7)) = 20
   \<and> pl_type (Platform_update 16 400 (Platform_new 10 20 100 20 Bouncy 0.7)) = Bouncy
   \<and> pl_active (Platform_update 16 400 (Platform_new 10 20 100 20 Bouncy 0.7))
   \<and> pl_opacity (Platform_update 16 400 (Platform_new 10 20 100 20 Bouncy 0.7)) = 1"
  using Platform_update_frame [of 16 400 "Platform_new 10 20 100 20 Bouncy 0.7"]
  by (simp add: Platform_new_def)

subsection \<open>What the steps of the manager leave alone\<close>


lemma randomBetween_bounds:
  "lo \<le> hi \<Longrightarrow> 0 \<le> r \<Longrightarrow> r \<le> 1 \<Longrightarrow> lo \<le> randomBetween lo hi r \<and> randomBetween lo hi r \<le> hi"
proof -
  assume a: "lo \<le> hi" "0 \<le> r" "r \<le> 1"
  have "0 \<le> r * (hi - lo)" using a by simp
  moreover have "r * (hi - lo) \<le> 1 * (hi - lo)" using a by (intro mult_right_mono) simp_all
  ultimately show ?thesis by (simp add: randomBetween_def)
qed

lemma generatePlatform_fst_y:
  "pl_y (fst (generatePlatform d pm)) = pm_highestPlatformY pm - randomBetween (pm_minGapY pm) (pm_maxGapY pm) (gapR d)"
  by (simp add: generatePlatform_def Let_def Platform_new_def)

lemma generatePlatform_frontier:
  "pm_highestPlatformY (snd (generatePlatform d pm)) = pm_highestPlatformY pm - randomBetween (pm_minGapY pm) (pm_maxGapY pm) (gapR d)"
  by (simp add: generatePlatform_def Let_def)

lemma generatePlatform_consts:
  "pm_minGapY (snd (generatePlatform d pm)) = pm_minGapY pm"
  "pm_maxGapY (snd (generatePlatform d pm)) = pm_maxGapY pm"
  "pm_canvasHeight (snd (generatePlatform d pm)) = pm_canvasHeight pm"
  "pm_canvasWidth (snd (generatePlatform d pm)) = pm_canvasWidth pm"
  by (simp_all add: generatePlatform_def Let_def)

lemma generatePlatform_platforms:
  "pm_platforms (snd (generatePlatform d pm)) = pm_platforms pm @ [fst (generatePlatform d pm)]"
  by (simp add: generatePlatform_def Let_def)

lemma prunePlatforms_consts:
  "pm_highestPlatformY (prunePlatforms dt c pm) = pm_highestPlatformY pm"
  "pm_minGapY (prunePlatforms dt c pm) = pm_minGapY pm"
  "pm_maxGapY (prunePlatforms dt c pm) = pm_maxGapY pm"
  "pm_canvasHeight (prunePlatforms dt c pm) = pm_canvasHeight pm"
  by (simp_all add: prunePlatforms_def)

lemma addFillPlatform_consts:
  "pm_highestPlatformY (addFillPlatform c fd pm) = pm_highestPlatformY pm"
  "pm_minGapY (addFillPlatform c fd pm) = pm_minGapY pm"
  "pm_maxGapY (addFillPlatform c fd pm) = pm_maxGapY pm"
  "pm_canvasHeight (addFillPlatform c fd pm) = pm_canvasHeight pm"
  by (simp_all add: addFillPlatform_def Let_def)


lemma generatePlatform_type:
  "pl_type (fst (generatePlatform d pm)) =
     (let score = \<bar>pm_highestPlatformY pm
                    - randomBetween (pm_minGapY pm) (pm_maxGapY pm) (gapR d)\<bar> / 10
      in if specialR d < specialChance score
         then landingPatch score (patchR d)
                (avoidRepeats (lastFewTypes (pm_platforms pm)) (altR d)
                   (bandType score (randR d)))
         else Normal)"
  by (simp add: generatePlatform_def Let_def Platform_new_def)





subsection \<open>The loop of update as a run of steps\<close>



lemma runSteps_append:
  "runSteps (ss @ ts) pm =
     (fst (runSteps ss pm) @ fst (runSteps ts (snd (runSteps ss pm))),
      snd (runSteps ts (snd (runSteps ss pm))))"
proof (induction ss arbitrary: pm)
  case Nil
  then show ?case by simp
next
  case (Cons s ss)
  then show ?case by (cases s) (simp_all add: split_beta Let_def)
qed

lemma generateLoop_is_run:
  "generateLoop rnd cameraY i pm = Some pm' \<Longrightarrow>
   \<exists>n. pm' = snd (runSteps (map (\<lambda>j. Gen (rnd j)) [i..<i + n]) pm)"
proof (induction rule: generateLoop.raw_induct [rotated 1, consumes 1])
  case (1 generateLoop' rnd cameraY i pm y)
  show ?case
  proof (cases "pm_highestPlatformY pm > cameraY - pm_canvasHeight pm * 2")
    case False
    then have "y = pm" using 1(2) by simp
    then have "y = snd (runSteps (map (\<lambda>j. Gen (rnd j)) [i..<i + 0]) pm)" by simp
    then show ?thesis by blast
  next
    case True
    then have "generateLoop' rnd cameraY (Suc i) (snd (generatePlatform (rnd i) pm)) = Some y"
      using 1(2) by simp
    from 1(1) [OF this] obtain n where
      n: "y = snd (runSteps (map (\<lambda>j. Gen (rnd j)) [Suc i..<Suc i + n]) (snd (generatePlatform (rnd i) pm)))"
      by blast
    have "[i..<i + Suc n] = i # [Suc i..<Suc i + n]" by (simp add: upt_rec)
    then have "y = snd (runSteps (map (\<lambda>j. Gen (rnd j)) [i..<i + Suc n]) pm)"
      using n by (simp add: split_beta Let_def)
    then show ?thesis by blast
  qed
qed

text \<open>
  What one call of \<open>update\<close> does to a manager is such a run: the pruning, then the
  calls of \<open>generatePlatform\<close> of the loop, then the fillers.
\<close>

lemma update_is_run:
  assumes "PlatformManager_update deltaTime cameraY ud pm = Some pm'"
  shows "\<exists>n fs. pm' = snd (runSteps (Prune deltaTime cameraY # map (\<lambda>j. Gen (ugen ud j)) [0..<n]
                                       @ map (\<lambda>j. Fill cameraY (ufill ud j)) fs) pm)"
proof -
  from assms obtain pm2 where
    pm2: "generateLoop (ugen ud) cameraY 0 (prunePlatforms deltaTime cameraY pm) = Some pm2"
    and pm': "pm' = topUpDensity cameraY (ufill ud) pm2"
    by (auto simp: PlatformManager_update_def split: option.splits)
  from generateLoop_is_run [OF pm2] obtain n where
    n: "pm2 = snd (runSteps (map (\<lambda>j. Gen (ugen ud j)) [0..<n]) (prunePlatforms deltaTime cameraY pm))"
    by auto
  have "\<exists>fs. topUpDensity cameraY (ufill ud) pm2
              = snd (runSteps (map (\<lambda>j. Fill cameraY (ufill ud j)) fs) pm2)"
  proof (cases "topUpDensity cameraY (ufill ud) pm2 = pm2")
    case True
    then have "topUpDensity cameraY (ufill ud) pm2
              = snd (runSteps (map (\<lambda>j. Fill cameraY (ufill ud j)) []) pm2)" by simp
    then show ?thesis by blast
  next
    case False
    then have "topUpDensity cameraY (ufill ud) pm2
              = snd (runSteps (map (\<lambda>j. Fill cameraY (ufill ud j)) [0, 1]) pm2)"
      by (simp add: topUpDensity_def Let_def numeral_2_eq_2 split: if_splits)
    then show ?thesis by blast
  qed
  then obtain fs where "pm' = snd (runSteps (map (\<lambda>j. Fill cameraY (ufill ud j)) fs) pm2)"
    using pm' by auto
  then have "pm' = snd (runSteps (Prune deltaTime cameraY # map (\<lambda>j. Gen (ugen ud j)) [0..<n]
                                       @ map (\<lambda>j. Fill cameraY (ufill ud j)) fs) pm)"
    using n by (simp add: runSteps_append)
  then show ?thesis by blast
qed


subsection \<open>Evaluating the concrete game\<close>

lemma plat_sel [simp]:
  "pl_y (plat x w t y a) = y" "pl_type (plat x w t y a) = t" "pl_active (plat x w t y a)"
  by (simp_all add: plat_def Platform_new_def)

lemma plat_update [simp]:
  "t \<noteq> Moving \<Longrightarrow> Platform_update dt cw (plat x w t y a) = plat x w t y (a + dt * 0.01)"
  by (cases t) (simp_all add: plat_def Platform_new_def Platform_update_def Let_def)

lemma specialChance_bounds:
  "specialChance s \<le> 0.6" "0 \<le> s \<Longrightarrow> 0.2 \<le> specialChance s"
  unfolding specialChance_def by linarith+

lemma gen_plain:
  "generatePlatform plainDraw (stdManager H ps)
     = (plat 155 90 Normal (H - 106) 0, stdManager (H - 106) (ps @ [plat 155 90 Normal (H - 106) 0]))"
proof -
  have "\<not> 0.9 < specialChance (\<bar>H - 106\<bar> / 10)"
    using specialChance_bounds(1) [of "\<bar>H - 106\<bar> / 10"] by linarith
  then show ?thesis
    by (simp add: generatePlatform_def stdManager_def plainDraw_def randomBetween_def Let_def
          plat_def Platform_new_def)
qed

lemma gen_vanish:
  "generatePlatform vanishDraw (stdManager H ps)
     = (let t = landingPatch (\<bar>H - 106\<bar> / 10) 0.5
                  (avoidRepeats (lastFewTypes ps) 0.5 (bandType (\<bar>H - 106\<bar> / 10) 0.95))
        in (plat 155 90 t (H - 106) 0, stdManager (H - 106) (ps @ [plat 155 90 t (H - 106) 0])))"
proof -
  have "0.1 < specialChance (\<bar>H - 106\<bar> / 10)"
    using specialChance_bounds(2) [of "\<bar>H - 106\<bar> / 10"] by simp
  then show ?thesis
    by (simp add: generatePlatform_def stdManager_def plainDraw_def vanishDraw_def
          randomBetween_def Let_def plat_def Platform_new_def)
qed

lemma prune_std:
  "prunePlatforms dt cameraY (stdManager H ps)
     = stdManager H (filter (\<lambda>p. pl_active p \<and> \<not> pl_y p > cameraY + 900)
                            (map (Platform_update dt 400) ps))"
  by (simp add: prunePlatforms_def stdManager_def add.commute)

lemma fill_std:
  "addFillPlatform cameraY plainFill (stdManager H ps)
     = stdManager H (ps @ [plat 155 90 Normal (cameraY + 300) 0])"
  by (simp add: addFillPlatform_def stdManager_def plainFill_def randomBetween_def Let_def
        plat_def Platform_new_def)

lemma topUp_std:
  "topUpDensity cameraY (\<lambda>i. plainFill) (stdManager H ps)
     = (if length (filter (\<lambda>p. pl_y p \<ge> cameraY - 100 \<and> pl_y p \<le> cameraY + 700) ps) < 10
        then stdManager H (ps @ [plat 155 90 Normal (cameraY + 300) 0,
                                 plat 155 90 Normal (cameraY + 300) 0])
        else stdManager H ps)"
proof -
  have "fold (\<lambda>i. addFillPlatform cameraY plainFill) [0..<2] (stdManager H ps)
          = stdManager H (ps @ [plat 155 90 Normal (cameraY + 300) 0,
                                 plat 155 90 Normal (cameraY + 300) 0])"
    by (simp add: numeral_2_eq_2 fill_std)
  then show ?thesis
    by (simp add: topUpDensity_def Let_def) (simp add: stdManager_def add.commute)
qed

lemma loop_std:
  "generateLoop rnd cameraY i (stdManager H ps)
     = (if H > cameraY - 1200
        then generateLoop rnd cameraY (Suc i) (snd (generatePlatform (rnd i) (stdManager H ps)))
        else Some (stdManager H ps))"
  by (subst generateLoop.simps) (simp add: stdManager_def)

lemma ctor_std:
  "PlatformManager_new 400 600 15 plainCtor
     = stdManager (- 1364)
        (plat 125 150 Normal 500 0
         # map (\<lambda>y. plat 150 100 Normal y 0) [400, 330, 260, 190, 120]
         @ map (\<lambda>k. plat 155 90 Normal (120 - 106 * real k) 0) [1..<15])"
proof -
  have a: "fold (addBottomPlatform plainCtor) [0..<5]
             (stdManager 500 [plat 125 150 Normal 500 0])
           = stdManager 120 (plat 125 150 Normal 500 0
               # map (\<lambda>y. plat 150 100 Normal y 0) [400, 330, 260, 190, 120])"
    by (simp add: upt_rec addBottomPlatform_def plainCtor_def stdManager_def Let_def
          randomBetween_def plat_def Platform_new_def)
  have b: "fold (\<lambda>i m. snd (generatePlatform plainDraw m)) [6..<20] (stdManager 120 ps)
           = stdManager (- 1364) (ps @ map (\<lambda>k. plat 155 90 Normal (120 - 106 * real k) 0) [1..<15])"
    for ps
    by (simp add: upt_rec gen_plain)
  have start: "Platform_new (pm_canvasWidth (stdManager 600 []) / 2 - 75)
                 (pm_canvasHeight (stdManager 600 []) - 100) 150
                 (pm_platformHeight (stdManager 600 [])) Normal (startDirR plainCtor)
               = plat 125 150 Normal 500 0"
    by (simp add: stdManager_def plainCtor_def plat_def Platform_new_def)
  have pm1: "(stdManager 600 [])\<lparr>pm_platforms := pm_platforms (stdManager 600 [])
                                     @ [plat 125 150 Normal 500 0],
                                 pm_highestPlatformY := pl_y (plat 125 150 Normal 500 0)\<rparr>
             = stdManager 500 [plat 125 150 Normal 500 0]"
    by (simp add: stdManager_def)
  have g: "genD plainCtor = (\<lambda>i. plainDraw)" by (simp add: plainCtor_def)
  have "generateInitialPlatforms 15 plainCtor (stdManager 600 [])
          = stdManager (- 1364)
        (plat 125 150 Normal 500 0
         # map (\<lambda>y. plat 150 100 Normal y 0) [400, 330, 260, 190, 120]
         @ map (\<lambda>k. plat 155 90 Normal (120 - 106 * real k) 0) [1..<15])"
    unfolding generateInitialPlatforms_def Let_def start pm1 a g
    by (simp add: gen_plain upt_rec)
  then show ?thesis
    by (simp add: PlatformManager_new_def stdManager_def)
qed

lemma draws_sel [simp]:
  "ugen firstUpdate j = (if j = 19 then vanishDraw else plainDraw)"
  "ufill firstUpdate = (\<lambda>i. plainFill)"
  "ugen laterUpdate j = vanishDraw"
  "ufill laterUpdate = (\<lambda>i. plainFill)"
  by (simp_all add: firstUpdate_def laterUpdate_def)

lemma first_update_result:
  "PlatformManager_update 16 (- 2280) firstUpdate (PlatformManager_new 400 600 15 plainCtor)
     = Some (stdManager (- 3484) (afterClimb 0))"
  by (simp add: PlatformManager_update_def ctor_std prune_std upt_rec loop_std gen_plain
        gen_vanish topUp_std Let_def landingPatch_def avoidRepeats_def bandType_def
        lastFewTypes_def afterClimb_def)

lemma second_update_result:
  "PlatformManager_update 16 (- 2282) laterUpdate (stdManager (- 3484) (afterClimb 0))
     = Some (stdManager (- 3484)
              (afterClimb 0.16 @ [plat 155 90 Normal (- 1982) 0, plat 155 90 Normal (- 1982) 0]))"
  by (simp add: PlatformManager_update_def prune_std upt_rec loop_std topUp_std afterClimb_def)

lemma third_update_result:
  "PlatformManager_update 16 (- 2286) laterUpdate (stdManager (- 3484)
              (afterClimb 0.16 @ [plat 155 90 Normal (- 1982) 0, plat 155 90 Normal (- 1982) 0]))
     = Some (stdManager (- 3590)
              (afterClimb 0.32 @ [plat 155 90 Normal (- 1982) 0.16, plat 155 90 Normal (- 1982) 0.16,
                 plat 155 90 Disappearing (- 3590) 0]))"
  by (simp add: PlatformManager_update_def prune_std upt_rec loop_std gen_vanish topUp_std
        Let_def landingPatch_def avoidRepeats_def bandType_def lastFewTypes_def afterClimb_def)

lemma tall_bottom:
  "fold (addBottomPlatform tallCtor) [0..<5]
     ((stdManager 3600 [plat 125 150 Normal 3600 0])\<lparr>pm_canvasHeight := 3700\<rparr>)
   = (stdManager 3220 (plat 125 150 Normal 3600 0
        # map (\<lambda>y. plat 150 100 Normal y 0) [3500, 3430, 3360, 3290, 3220]))
        \<lparr>pm_canvasHeight := 3700\<rparr>"
  by (simp add: upt_rec addBottomPlatform_def tallCtor_def plainCtor_def stdManager_def Let_def
          randomBetween_def plat_def Platform_new_def)

lemma tall_types:
  "map (\<lambda>p. (pl_y p, pl_type p)) (pm_platforms (PlatformManager_new 400 3700 3 tallCtor))
     = [(3600, Normal), (3500, Normal), (3430, Normal), (3360, Normal), (3290, Normal),
        (3220, Normal), (3114, Disappearing), (3008, Bouncy)]"
proof -
  have g: "genD tallCtor = (\<lambda>i. vanishDraw\<lparr>patchR := 0.8\<rparr>)" by (simp add: tallCtor_def)
  have s: "startDirR tallCtor = 0.3" by (simp add: tallCtor_def plainCtor_def)
  have init: "PlatformManager_new 400 3700 3 tallCtor
     = fold (\<lambda>i m. snd (generatePlatform (vanishDraw\<lparr>patchR := 0.8\<rparr>) m)) [6..<8]
        (fold (addBottomPlatform tallCtor) [0..<5]
     ((stdManager 3600 [plat 125 150 Normal 3600 0])\<lparr>pm_canvasHeight := 3700\<rparr>))"
    by (simp add: PlatformManager_new_def generateInitialPlatforms_def Let_def g s stdManager_def
          plat_def Platform_new_def del: fold_simps upt_Suc)
  show ?thesis
    unfolding init tall_bottom
    apply (simp add: upt_rec)
    apply (simp add: generatePlatform_platforms generatePlatform_type generatePlatform_fst_y
        generatePlatform_frontier generatePlatform_consts Let_def)
    apply (simp add: stdManager_def vanishDraw_def plainDraw_def randomBetween_def specialChance_def
        bandType_def avoidRepeats_def landingPatch_def lastFewTypes_def)
    done
qed


subsection \<open>The generator: gaps and frontier\<close>

lemma runSteps_inv:
  "pm_minGapY pm \<le> pm_maxGapY pm \<Longrightarrow>
   \<forall>d. Gen d \<in> set ss \<longrightarrow> 0 \<le> gapR d \<and> gapR d \<le> 1 \<Longrightarrow>
   gapsWithin (pm_minGapY pm) (pm_maxGapY pm) (pm_highestPlatformY pm # map pl_y (fst (runSteps ss pm)))
   \<and> pm_highestPlatformY (snd (runSteps ss pm)) = last (pm_highestPlatformY pm # map pl_y (fst (runSteps ss pm)))"
proof (induction ss arbitrary: pm)
  case Nil
  then show ?case by simp
next
  case (Cons s ss)
  show ?case
  proof (cases s)
    case (Gen d)
    let ?pm' = "snd (generatePlatform d pm)"
    have d: "0 \<le> gapR d" "gapR d \<le> 1" using Cons.prems(2) Gen by auto
    have rb: "pm_minGapY pm \<le> randomBetween (pm_minGapY pm) (pm_maxGapY pm) (gapR d)"
         "randomBetween (pm_minGapY pm) (pm_maxGapY pm) (gapR d) \<le> pm_maxGapY pm"
      using randomBetween_bounds [OF Cons.prems(1) d] by simp_all
    have ih: "gapsWithin (pm_minGapY ?pm') (pm_maxGapY ?pm')
                (pm_highestPlatformY ?pm' # map pl_y (fst (runSteps ss ?pm')))
              \<and> pm_highestPlatformY (snd (runSteps ss ?pm'))
                  = last (pm_highestPlatformY ?pm' # map pl_y (fst (runSteps ss ?pm')))"
      using Cons.prems by (intro Cons.IH) (simp_all add: generatePlatform_consts)
    show ?thesis
      using ih rb
      by (simp add: Gen generatePlatform_consts generatePlatform_frontier generatePlatform_fst_y
            split_beta Let_def)
  next
    case (Prune dt c)
    show ?thesis
      using Cons.IH [of "prunePlatforms dt c pm"] Cons.prems
      by (simp add: Prune prunePlatforms_consts)
  next
    case (Fill c fd)
    show ?thesis
      using Cons.IH [of "addFillPlatform c fd pm"] Cons.prems
      by (simp add: Fill addFillPlatform_consts)
  qed
qed


lemma runSteps_gap_bounds:
  "pm_minGapY (snd (runSteps ss pm)) = pm_minGapY pm
   \<and> pm_maxGapY (snd (runSteps ss pm)) = pm_maxGapY pm"
proof (induction ss arbitrary: pm)
  case Nil
  then show ?case by simp
next
  case (Cons s ss)
  then show ?case
    by (cases s)
       (simp_all add: split_beta Let_def generatePlatform_consts prunePlatforms_consts
          addFillPlatform_consts)
qed

text \<open>
  C1. Take a manager whose minimum gap is not above its maximum gap, and any run of
  steps (calls of \<open>generatePlatform\<close>, prunings and filler injections of \<open>update\<close>)
  whose gap draws lie in \<open>[0, 1]\<close>. Then the \<open>y\<close> of the platforms that
  \<open>generatePlatform\<close> returned, in generation order and preceded by the frontier at the
  start, differ from one to the next by at least \<open>minGapY\<close> and at most \<open>maxGapY\<close>, and
  at the end \<open>highestPlatformY\<close> is the \<open>y\<close> of the platform generated last (the
  starting frontier when none was generated). Fillers are not in that sequence and do
  not move the frontier. No step writes either bound, so the bounds of the manager at
  the start are those in force at every generation.
\<close>

theorem generated_gaps_within:
  assumes "pm_minGapY pm \<le> pm_maxGapY pm"
    and "\<forall>d. Gen d \<in> set ss \<longrightarrow> 0 \<le> gapR d \<and> gapR d \<le> 1"
  shows "gapsWithin (pm_minGapY pm) (pm_maxGapY pm)
           (pm_highestPlatformY pm # map pl_y (fst (runSteps ss pm)))
         \<and> pm_highestPlatformY (snd (runSteps ss pm))
             = last (pm_highestPlatformY pm # map pl_y (fst (runSteps ss pm)))
         \<and> pm_minGapY (snd (runSteps ss pm)) = pm_minGapY pm
         \<and> pm_maxGapY (snd (runSteps ss pm)) = pm_maxGapY pm"
  using runSteps_inv [OF assms] runSteps_gap_bounds [of ss pm] by simp

text \<open>
  At the manager of the concrete game: two generated platforms with the injection of a
  filler between them lie 106 apart, and the frontier is the \<open>y\<close> of the second.
\<close>

theorem generated_gaps_within_witness:
  "gapsWithin 70 110
     (- 1364 # map pl_y (fst (runSteps [Gen plainDraw, Fill 0 plainFill, Gen vanishDraw]
                                (PlatformManager_new 400 600 15 plainCtor))))
   \<and> map pl_y (fst (runSteps [Gen plainDraw, Fill 0 plainFill, Gen vanishDraw]
                       (PlatformManager_new 400 600 15 plainCtor))) = [- 1470, - 1576]
   \<and> pm_highestPlatformY (snd (runSteps [Gen plainDraw, Fill 0 plainFill, Gen vanishDraw]
                                  (PlatformManager_new 400 600 15 plainCtor))) = - 1576"
proof -
  have run: "map pl_y (fst (runSteps [Gen plainDraw, Fill 0 plainFill, Gen vanishDraw]
                              (PlatformManager_new 400 600 15 plainCtor))) = [- 1470, - 1576]"
    by (simp add: ctor_std gen_plain gen_vanish fill_std Let_def)
  have h1: "pm_minGapY (PlatformManager_new 400 600 15 plainCtor)
              \<le> pm_maxGapY (PlatformManager_new 400 600 15 plainCtor)"
    by (simp add: ctor_std stdManager_def)
  have h2: "\<forall>d. Gen d \<in> set [Gen plainDraw, Fill 0 plainFill, Gen vanishDraw]
              \<longrightarrow> 0 \<le> gapR d \<and> gapR d \<le> 1"
    by (simp add: plainDraw_def vanishDraw_def)
  have c: "pm_minGapY (PlatformManager_new 400 600 15 plainCtor) = 70"
    "pm_maxGapY (PlatformManager_new 400 600 15 plainCtor) = 110"
    "pm_highestPlatformY (PlatformManager_new 400 600 15 plainCtor) = - 1364"
    by (simp_all add: ctor_std stdManager_def)
  show ?thesis
    using generated_gaps_within [OF h1 h2] unfolding c run by simp
qed

subsection \<open>The generator: look-ahead\<close>


















lemma vanishing_sel [simp]:
  "pl_y (vanishing t a) = - 3484" "pl_active (vanishing t a)"
  by (simp_all add: vanishing_def)







subsection \<open>The generator: disappearing platforms\<close>

lemma avoidRepeats_not_disappearing:
  "Disappearing \<in> set lastFew \<Longrightarrow> avoidRepeats lastFew alt t \<noteq> Disappearing"
  by (simp add: avoidRepeats_def)

lemma landingPatch_not_disappearing:
  "t \<noteq> Disappearing \<Longrightarrow> landingPatch score patch t \<noteq> Disappearing"
  by (simp add: landingPatch_def)

lemma lastFewTypes_snoc:
  "pl_type p \<in> set (lastFewTypes (ps @ [p]))"
  by (simp add: lastFewTypes_def)

text \<open>
  C6, as the code has it. The rule looks at the last three entries of the platform
  list, whatever put them there. (1) When one of them is \<open>disappearing\<close>,
  \<open>generatePlatform\<close> does not return a \<open>disappearing\<close> platform. (2) When, in addition,
  the special-platform draw succeeds and the banded draw selects \<open>disappearing\<close>, the
  type falls back to \<open>normal\<close>, which the patch for scores 300 to 310 then replaces by
  its own choice of \<open>normal\<close> or \<open>bouncy\<close>. (3) When a call of \<open>generatePlatform\<close>
  returns a \<open>disappearing\<close> platform, a second call made on the manager exactly as the
  first one left it does not.
\<close>

theorem generatePlatform_avoids_disappearing:
  "(Disappearing \<in> set (lastFewTypes (pm_platforms pm)) \<longrightarrow>
      pl_type (fst (generatePlatform d pm)) \<noteq> Disappearing)
   \<and> (Disappearing \<in> set (lastFewTypes (pm_platforms pm))
       \<and> specialR d < specialChance (\<bar>pl_y (fst (generatePlatform d pm))\<bar> / 10)
       \<and> bandType (\<bar>pl_y (fst (generatePlatform d pm))\<bar> / 10) (randR d) = Disappearing \<longrightarrow>
      pl_type (fst (generatePlatform d pm))
        = landingPatch (\<bar>pl_y (fst (generatePlatform d pm))\<bar> / 10) (patchR d) Normal)
   \<and> (pl_type (fst (generatePlatform d pm)) = Disappearing \<longrightarrow>
      pl_type (fst (generatePlatform d' (snd (generatePlatform d pm)))) \<noteq> Disappearing)"
proof (intro conjI impI)
  show a: "pl_type (fst (generatePlatform e m)) \<noteq> Disappearing"
    if "Disappearing \<in> set (lastFewTypes (pm_platforms m))" for e m
    using that
    by (simp add: generatePlatform_type Let_def avoidRepeats_not_disappearing
          landingPatch_not_disappearing)
  show "pl_type (fst (generatePlatform d pm))
          = landingPatch (\<bar>pl_y (fst (generatePlatform d pm))\<bar> / 10) (patchR d) Normal"
    if "Disappearing \<in> set (lastFewTypes (pm_platforms pm))
        \<and> specialR d < specialChance (\<bar>pl_y (fst (generatePlatform d pm))\<bar> / 10)
        \<and> bandType (\<bar>pl_y (fst (generatePlatform d pm))\<bar> / 10) (randR d) = Disappearing"
    using that
    by (simp add: generatePlatform_type generatePlatform_fst_y Let_def avoidRepeats_def)
  show "pl_type (fst (generatePlatform d' (snd (generatePlatform d pm)))) \<noteq> Disappearing"
    if "pl_type (fst (generatePlatform d pm)) = Disappearing"
  proof -
    have "Disappearing \<in> set (lastFewTypes (pm_platforms (snd (generatePlatform d pm))))"
      using that lastFewTypes_snoc [of "fst (generatePlatform d pm)" "pm_platforms pm"]
      by (simp add: generatePlatform_platforms)
    then show ?thesis by (rule a)
  qed
qed

text \<open>
  After the first \<open>update\<close> of the concrete game the list ends with a disappearing
  platform and two fillers; the next draw of \<open>disappearing\<close> falls back to \<open>normal\<close>.
\<close>

theorem generatePlatform_avoids_disappearing_witness:
  "Disappearing \<in> set (lastFewTypes (pm_platforms (stdManager (- 3484) (afterClimb 0))))
   \<and> bandType (\<bar>pl_y (fst (generatePlatform vanishDraw
                              (stdManager (- 3484) (afterClimb 0))))\<bar> / 10)
        (randR vanishDraw) = Disappearing
   \<and> pl_type (fst (generatePlatform vanishDraw (stdManager (- 3484) (afterClimb 0)))) = Normal"
  using generatePlatform_avoids_disappearing
          [of "stdManager (- 3484) (afterClimb 0)" vanishDraw vanishDraw]
  by (simp add: gen_vanish Let_def lastFewTypes_def afterClimb_def bandType_def
        landingPatch_def avoidRepeats_def)
     (simp add: stdManager_def vanishDraw_def plainDraw_def)

text \<open>
  C6 as claimed fails in both halves. First, fillers come between generated platforms.
  In the concrete game, the first \<open>update\<close> (camera at -2280) generates twenty
  platforms, the last of them \<open>disappearing\<close> at the frontier -3484, and injects two
  fillers; the second (camera at -2282) generates nothing and injects two more
  fillers; the third (camera at -2286) generates one platform at -3590. Its last three
  predecessors in the list are fillers, so it is \<open>disappearing\<close> too: the platforms
  returned by \<open>generatePlatform\<close> end with two \<open>disappearing\<close> ones in a row. Second,
  the fallback is not always to \<open>normal\<close>: on a canvas 3700 high the constructor
  generates a \<open>disappearing\<close> platform at 3114 (score 311.4) and then, at 3008 (score
  300.8), draws \<open>disappearing\<close> again, falls back, and the patch for scores 300 to 310
  makes the platform \<open>bouncy\<close>.
\<close>

theorem consecutive_disappearing_counterexample:
  "Option.bind
     (Option.bind
        (PlatformManager_update 16 (- 2280) firstUpdate
           (PlatformManager_new 400 600 15 plainCtor))
        (PlatformManager_update 16 (- 2282) laterUpdate))
     (PlatformManager_update 16 (- 2286) laterUpdate)
   = Some (snd (runSteps climbSteps (PlatformManager_new 400 600 15 plainCtor)))
   \<and> map (\<lambda>p. (pl_y p, pl_type p))
        (drop 18 (fst (runSteps climbSteps (PlatformManager_new 400 600 15 plainCtor))))
      = [(- 3378, Normal), (- 3484, Disappearing), (- 3590, Disappearing)]
   \<and> map (\<lambda>p. (pl_y p, pl_type p))
        (drop 18 (pm_platforms
                    (snd (runSteps climbSteps (PlatformManager_new 400 600 15 plainCtor)))))
      = [(- 3378, Normal), (- 3484, Disappearing), (- 1980, Normal), (- 1980, Normal),
         (- 1982, Normal), (- 1982, Normal), (- 3590, Disappearing)]
   \<and> map (\<lambda>p. (pl_y p, pl_type p))
        (drop 6 (pm_platforms (PlatformManager_new 400 3700 3 tallCtor)))
      = [(3114, Disappearing), (3008, Bouncy)]"
proof -
  have run: "runSteps climbSteps (stdManager (- 1364) ps0)
      = (map (\<lambda>k. plat 155 90 Normal (- 1364 - 106 * real k) 0) [1..<20]
           @ [plat 155 90 Disappearing (- 3484) 0, plat 155 90 Disappearing (- 3590) 0],
         stdManager (- 3590)
           (afterClimb 0.32 @ [plat 155 90 Normal (- 1982) 0.16, plat 155 90 Normal (- 1982) 0.16,
              plat 155 90 Disappearing (- 3590) 0]))"
    if "ps0 = plat 125 150 Normal 500 0
         # map (\<lambda>y. plat 150 100 Normal y 0) [400, 330, 260, 190, 120]
         @ map (\<lambda>k. plat 155 90 Normal (120 - 106 * real k) 0) [1..<15]" for ps0
    unfolding that
    by (simp add: climbSteps_def upt_rec prune_std gen_plain gen_vanish fill_std Let_def
          landingPatch_def avoidRepeats_def bandType_def lastFewTypes_def afterClimb_def)
  have chain: "Option.bind
     (Option.bind
        (PlatformManager_update 16 (- 2280) firstUpdate
           (PlatformManager_new 400 600 15 plainCtor))
        (PlatformManager_update 16 (- 2282) laterUpdate))
     (PlatformManager_update 16 (- 2286) laterUpdate)
     = Some (stdManager (- 3590)
           (afterClimb 0.32 @ [plat 155 90 Normal (- 1982) 0.16, plat 155 90 Normal (- 1982) 0.16,
              plat 155 90 Disappearing (- 3590) 0]))"
    by (simp only: first_update_result second_update_result third_update_result bind.bind_lunit)
  have run': "runSteps climbSteps (PlatformManager_new 400 600 15 plainCtor)
      = (map (\<lambda>k. plat 155 90 Normal (- 1364 - 106 * real k) 0) [1..<20]
           @ [plat 155 90 Disappearing (- 3484) 0, plat 155 90 Disappearing (- 3590) 0],
         stdManager (- 3590)
           (afterClimb 0.32 @ [plat 155 90 Normal (- 1982) 0.16, plat 155 90 Normal (- 1982) 0.16,
              plat 155 90 Disappearing (- 3590) 0]))"
    unfolding ctor_std by (rule run [OF refl])
  have tall: "map (\<lambda>p. (pl_y p, pl_type p))
        (drop 6 (pm_platforms (PlatformManager_new 400 3700 3 tallCtor)))
      = [(3114, Disappearing), (3008, Bouncy)]"
    using arg_cong [OF tall_types, of "drop 6"] by (simp add: drop_map)
  show ?thesis
    unfolding chain run' tall
    by (simp add: stdManager_def afterClimb_def upt_rec)
qed


subsection \<open>Score and difficulty\<close>

lemma Game_new_start:
  "g_score (Game_new w h hs ed) = 0" "g_difficulty (Game_new w h hs ed) = 1"
  by (simp_all add: Game_new_def initEntities_def Let_def)

text \<open>
  C2. For every game state and every argument, the score after \<open>updateScore(newScore)\<close>
  is at least the score before; an argument that is not above the current score
  leaves the score as it is.
\<close>

theorem updateScore_monotone:
  "g_score g \<le> g_score (updateScore newScore g)
   \<and> (newScore \<le> g_score g \<longrightarrow> g_score (updateScore newScore g) = g_score g)"
  by (simp add: updateScore_def Let_def)

theorem updateScore_monotone_witness:
  "g_score (updateScore 500 (Game_new 400 600 0 plainEntities)) = 500
   \<and> g_score (updateScore 300 (updateScore 500 (Game_new 400 600 0 plainEntities))) = 500"
  using updateScore_monotone [of "updateScore 500 (Game_new 400 600 0 plainEntities)" 300]
  by (simp add: updateScore_def Let_def Game_new_start)

lemma increaseDifficulty_difficulty:
  "g_difficulty (increaseDifficulty g) = g_difficulty g + 1"
  by (simp add: increaseDifficulty_def Let_def)

text \<open>
  C3, as the code has it. The difficulty never decreases, and one call of
  \<open>updateScore\<close> raises it by exactly 1 when the score rises into a later thousand
  (the new score is above the old one and \<open>floor(newScore / 1000)\<close> is above
  \<open>floor(score / 1000)\<close>), whatever the number of 1000-point boundaries between the two
  scores, and by 0 otherwise.
\<close>

theorem updateScore_difficulty:
  "g_difficulty (updateScore newScore g) =
     g_difficulty g + (if newScore > g_score g \<and> \<lfloor>newScore / 1000\<rfloor> > \<lfloor>g_score g / 1000\<rfloor> then 1 else 0)
   \<and> g_difficulty g \<le> g_difficulty (updateScore newScore g)"
  by (simp add: updateScore_def Let_def showThousandMilestone_def increaseDifficulty_difficulty)

theorem updateScore_difficulty_witness:
  "g_difficulty (updateScore 1200 (Game_new 400 600 0 plainEntities)) = 2
   \<and> g_difficulty (updateScore 900 (Game_new 400 600 0 plainEntities)) = 1"
  using updateScore_difficulty [of 1200 "Game_new 400 600 0 plainEntities"]
    updateScore_difficulty [of 900 "Game_new 400 600 0 plainEntities"]
  by (simp add: Game_new_start)

text \<open>
  C3 as claimed fails: a call that takes the score of a new game from 0 to 2500
  crosses the boundaries 1000 and 2000, and the difficulty rises by 1, not by 2.
\<close>

theorem updateScore_difficulty_counterexample:
  "g_score (Game_new 400 600 0 plainEntities) = 0
   \<and> \<lfloor>2500 / 1000 :: real\<rfloor> - \<lfloor>g_score (Game_new 400 600 0 plainEntities) / 1000\<rfloor> = 2
   \<and> g_difficulty (updateScore 2500 (Game_new 400 600 0 plainEntities))
       - g_difficulty (Game_new 400 600 0 plainEntities) = 1"
  by (simp add: updateScore_def Let_def showThousandMilestone_def
        increaseDifficulty_difficulty Game_new_start)

subsection \<open>Camera\<close>

text \<open>
  C5, as the code has it. The easing constant of \<open>updateCamera\<close> is strictly smaller
  when the player is falling (vertical velocity above 0: the constant is 0.05) than
  when the player is not (0.1), and it is the constant that \<open>Utils.ease\<close> receives to
  move \<open>camera.y\<close> toward \<open>camera.targetY\<close>.
\<close>

theorem cameraEasing_falling_smaller:
  assumes "0 < vFalling" and "vRising \<le> 0"
  shows "cameraEasing vFalling < cameraEasing vRising
         \<and> cameraEasing vFalling = 0.05 \<and> cameraEasing vRising = 0.1
         \<and> cam_y (g_camera (updateCamera ease dt g))
             = ease (cam_y (g_camera g)) (cam_targetY (g_camera (updateCamera ease dt g)))
                 (cameraEasing (plr_velocityY (g_player g)))"
  using assms by (simp add: cameraEasing_def updateCamera_def Let_def)

theorem cameraEasing_falling_smaller_witness:
  "cameraEasing 3 < cameraEasing (- 3) \<and> cameraEasing 3 = 0.05 \<and> cameraEasing (- 3) = 0.1"
proof -
  have h1: "(0::real) < 3" and h2: "(- 3::real) \<le> 0" by simp_all
  show ?thesis using cameraEasing_falling_smaller [OF h1 h2] by simp
qed

text \<open>
  C5 as claimed fails: the constant for a falling player (velocity 1) is not larger
  than the constant for a rising player (velocity -1).
\<close>

theorem cameraEasing_counterexample:
  "\<not> cameraEasing 1 > cameraEasing (- 1)"
  by (simp add: cameraEasing_def)

subsection \<open>Restart\<close>























subsection \<open>Recovery of the player\<close>

text \<open>On finite numbers the function of the frame is the function on all numbers.\<close>

lemma recoverFinite_agrees:
  "recoverPlayerIfNeeded (Fin (g_canvasWidth g)) (Fin (g_canvasHeight g))
     (Fin (cam_y (g_camera g))) (playerJs (g_player g))
   = playerJs (g_player (recoverFinite g))"
  by (simp add: recoverPlayerIfNeeded_def recoverFinite_def playerJs_def Let_def isNaN_def
        jgt_def jsub_def)

lemma jlt_NaN [simp]: "\<not> jlt a NaN" by (cases a) simp_all
lemma jadd_NaN [simp]: "jadd a NaN = NaN" by (cases a) simp_all
lemma jmul_NaN [simp]: "jmul a NaN = NaN" by (cases a) simp_all

text \<open>
  C8, as the code has it. When the player's \<open>x\<close>, \<open>y\<close>, \<open>velocityX\<close> or \<open>velocityY\<close> is
  NaN and the test for a player far off-screen vertically does not fire,
  \<open>recoverPlayerIfNeeded\<close> resets the player: centred horizontally, at
  \<open>camera.y + 0.7 * canvas.height\<close>, with horizontal velocity 0 and vertical velocity
  \<open>jumpForce * 0.5\<close>; the alive flag and everything else stay as they were. When it is
  \<open>y\<close> that is NaN the test cannot fire.
\<close>

theorem recover_NaN:
  assumes "plr_x p = NaN \<or> plr_y p = NaN \<or> plr_velocityX p = NaN \<or> plr_velocityY p = NaN"
    and "plr_y p = NaN
         \<or> \<not> (jlt (jsub (plr_y p) cameraY) (jneg canvasHeight)
               \<or> jgt (jsub (plr_y p) cameraY) (jmul canvasHeight (Fin 2)))"
  shows "recoverPlayerIfNeeded canvasWidth canvasHeight cameraY p =
           p\<lparr>plr_x := jsub (jdiv canvasWidth (Fin 2)) (jdiv (plr_width p) (Fin 2)),
             plr_y := jadd cameraY (jmul canvasHeight (Fin 0.7)),
             plr_velocityX := Fin 0,
             plr_velocityY := jmul (plr_jumpForce p) (Fin 0.5)\<rparr>"
proof -
  have "\<not> (jlt (jsub (plr_y p) cameraY) (jneg canvasHeight)
               \<or> jgt (jsub (plr_y p) cameraY) (jmul canvasHeight (Fin 2)))"
    using assms(2) by (auto simp add: jsub_def jgt_def)
  then show ?thesis
    using assms(1)
    by (auto simp add: recoverPlayerIfNeeded_def Let_def isNaN_def jgt_def)
qed

text \<open>A player whose position and vertical velocity are NaN, with the camera at -50.\<close>

theorem recover_NaN_witness:
  "recoverPlayerIfNeeded (Fin 400) (Fin 600) (Fin (-50))
     \<lparr>plr_x = Fin 170, plr_y = NaN, plr_width = Fin 60, plr_height = Fin 100,
      plr_velocityX = Fin 0, plr_velocityY = NaN, plr_gravity = Fin 0.5,
      plr_jumpForce = Fin (-15), plr_isAlive = True, plr_isFalling = True\<rparr>
   = \<lparr>plr_x = Fin 170, plr_y = Fin 370, plr_width = Fin 60, plr_height = Fin 100,
      plr_velocityX = Fin 0, plr_velocityY = Fin (-7.5), plr_gravity = Fin 0.5,
      plr_jumpForce = Fin (-15), plr_isAlive = True, plr_isFalling = True\<rparr>"
  using recover_NaN [of "\<lparr>plr_x = Fin 170, plr_y = NaN, plr_width = Fin 60, plr_height = Fin 100,
      plr_velocityX = Fin 0, plr_velocityY = NaN, plr_gravity = Fin 0.5,
      plr_jumpForce = Fin (-15), plr_isAlive = True, plr_isFalling = True\<rparr>" "Fin (-50)" "Fin 600" "Fin 400"]
  by (simp add: jsub_def)

text \<open>
  C8 as claimed fails for infinite values. A player whose \<open>y\<close> is infinite is not
  reset: the game ends (\<open>isAlive\<close> becomes false) and the position stays infinite. A
  player whose vertical velocity is infinite is returned unchanged.
\<close>

theorem recover_counterexample:
  "recoverPlayerIfNeeded (Fin 400) (Fin 600) (Fin 0)
     \<lparr>plr_x = Fin 170, plr_y = PInf, plr_width = Fin 60, plr_height = Fin 100,
      plr_velocityX = Fin 0, plr_velocityY = Fin 3, plr_gravity = Fin 0.5,
      plr_jumpForce = Fin (-15), plr_isAlive = True, plr_isFalling = True\<rparr>
   = \<lparr>plr_x = Fin 170, plr_y = PInf, plr_width = Fin 60, plr_height = Fin 100,
      plr_velocityX = Fin 0, plr_velocityY = Fin 3, plr_gravity = Fin 0.5,
      plr_jumpForce = Fin (-15), plr_isAlive = False, plr_isFalling = True\<rparr>
   \<and> recoverPlayerIfNeeded (Fin 400) (Fin 600) (Fin 0)
     \<lparr>plr_x = Fin 170, plr_y = Fin 300, plr_width = Fin 60, plr_height = Fin 100,
      plr_velocityX = Fin 0, plr_velocityY = PInf, plr_gravity = Fin 0.5,
      plr_jumpForce = Fin (-15), plr_isAlive = True, plr_isFalling = True\<rparr>
   = \<lparr>plr_x = Fin 170, plr_y = Fin 300, plr_width = Fin 60, plr_height = Fin 100,
      plr_velocityX = Fin 0, plr_velocityY = PInf, plr_gravity = Fin 0.5,
      plr_jumpForce = Fin (-15), plr_isAlive = True, plr_isFalling = True\<rparr>"
  by (simp add: recoverPlayerIfNeeded_def Let_def isNaN_def jgt_def jsub_def jinf_def)

subsection \<open>Collisions with platforms\<close>







end
